theory Spec2Isabelle
  imports Main "HOL-Library.AList"
begin

section \<open>Expression model\<close>

text \<open>
  The expression tree of \<^verbatim>\<open>mathics.core\<close>, as far as \<^verbatim>\<open>mathics/builtin/patterns.py\<close>
  reads it. Atoms are symbols (with their fully qualified name), numbers, strings and the
  \<^verbatim>\<open>Dispatch\<close> atom of \<^verbatim>\<open>patterns.py\<close>, which carries the rule list it was built from.
  A \<^verbatim>\<open>Rational\<close> is numerator and denominator, a \<^verbatim>\<open>Real\<close> is mantissa and binary
  exponent: the patterns only read the sign of a number.
\<close>

datatype expr =
    Symbol string
  | Integer int
  | Rational int int
  | Real int int
  | Complex expr expr
  | String string
  | Dispatch "expr list"
  | Expression expr "expr list"

definition SymbolTrue :: expr where "SymbolTrue = Symbol ''System`True''"
definition SymbolList :: expr where "SymbolList = Symbol ''System`List''"
definition SymbolDispatch :: expr where "SymbolDispatch = Symbol ''System`Dispatch''"
definition SymbolRule :: expr where "SymbolRule = Symbol ''System`Rule''"
definition SymbolRuleDelayed :: expr where "SymbolRuleDelayed = Symbol ''System`RuleDelayed''"
definition SymbolSequence :: expr where "SymbolSequence = Symbol ''System`Sequence''"
definition SymbolBlank :: expr where "SymbolBlank = Symbol ''System`Blank''"
definition SymbolDefault :: expr where "SymbolDefault = Symbol ''System`Default''"
definition SymbolInfinity :: expr where "SymbolInfinity = Symbol ''System`Infinity''"

definition ListExpression :: "expr list \<Rightarrow> expr" where
  "ListExpression elements = Expression SymbolList elements"

text \<open>\<^verbatim>\<open>sameQ\<close> is exact, syntactic identity of expression trees.\<close>

definition sameQ :: "expr \<Rightarrow> expr \<Rightarrow> bool" where
  "sameQ a b = (a = b)"

fun is_Expression :: "expr \<Rightarrow> bool" where
  "is_Expression (Expression h es) = True"
| "is_Expression _ = False"

fun get_head :: "expr \<Rightarrow> expr" where
  "get_head (Expression h es) = h"
| "get_head (Symbol s) = Symbol ''System`Symbol''"
| "get_head (Integer n) = Symbol ''System`Integer''"
| "get_head (Rational p q) = Symbol ''System`Rational''"
| "get_head (Real m e) = Symbol ''System`Real''"
| "get_head (Complex re im) = Symbol ''System`Complex''"
| "get_head (String s) = Symbol ''System`String''"
| "get_head (Dispatch src) = SymbolDispatch"

text \<open>\<^verbatim>\<open>elements\<close> of an expression; an atom has none (\<^verbatim>\<open>get_elements\<close> returns the empty list).\<close>

fun get_elements :: "expr \<Rightarrow> expr list" where
  "get_elements (Expression h es) = es"
| "get_elements _ = []"

text \<open>\<^verbatim>\<open>get_name\<close>: the name of a symbol, the empty string for everything else.\<close>

fun get_name :: "expr \<Rightarrow> string" where
  "get_name (Symbol s) = s"
| "get_name _ = []"

definition get_head_name :: "expr \<Rightarrow> string" where
  "get_head_name e = get_name (get_head e)"

text \<open>\<^verbatim>\<open>get_int_value\<close>: the value of an \<^verbatim>\<open>Integer\<close> atom, \<^verbatim>\<open>None\<close> for everything else.\<close>

fun get_int_value :: "expr \<Rightarrow> int option" where
  "get_int_value (Integer n) = Some n"
| "get_int_value _ = None"

text \<open>
  \<^verbatim>\<open>has_form(heads, *element_counts)\<close>: false on atoms; on an expression the head's name
  must be one of \<open>heads\<close> and, unless the count is \<^verbatim>\<open>None\<close> (here \<open>None\<close>), the
  number of elements one of \<open>counts\<close>.
\<close>

definition has_form :: "expr \<Rightarrow> string list \<Rightarrow> nat list option \<Rightarrow> bool" where
  "has_form e heads counts =
     (is_Expression e \<and> get_name (get_head e) \<in> set heads \<and>
      (case counts of None \<Rightarrow> True | Some ns \<Rightarrow> length (get_elements e) \<in> set ns))"

text \<open>\<^verbatim>\<open>get_sequence\<close>: the elements of a \<^verbatim>\<open>Sequence[...]\<close>, else the expression alone.\<close>

definition get_sequence :: "expr \<Rightarrow> expr list" where
  "get_sequence e = (if get_head e = SymbolSequence then get_elements e else [e])"

fun is_Atom :: "expr \<Rightarrow> bool" where
  "is_Atom (Expression h es) = False"
| "is_Atom _ = True"

fun is_String :: "expr \<Rightarrow> bool" where
  "is_String (String s) = True"
| "is_String _ = False"

fun is_Number :: "expr \<Rightarrow> bool" where
  "is_Number (Integer n) = True"
| "is_Number (Rational p q) = True"
| "is_Number (Real m e) = True"
| "is_Number (Complex re im) = True"
| "is_Number _ = False"

text \<open>\<^verbatim>\<open>isinstance(item, (Integer, Rational, Real))\<close> and the sign of \<^verbatim>\<open>item.value\<close>.\<close>

fun is_real_number :: "expr \<Rightarrow> bool" where
  "is_real_number (Integer n) = True"
| "is_real_number (Rational p q) = True"
| "is_real_number (Real m e) = True"
| "is_real_number _ = False"

fun value_sign :: "expr \<Rightarrow> int" where
  "value_sign (Integer n) = sgn n"
| "value_sign (Rational p q) = sgn p * sgn q"
| "value_sign (Real m e) = sgn m"
| "value_sign _ = 0"

section \<open>Messages, exceptions and outcomes\<close>

datatype msg_arg = ArgExpr expr | ArgInt int | ArgStr string | ArgNone

text \<open>\<^verbatim>\<open>evaluation.message(symbol, tag, *args)\<close> appends one message to the evaluation's output.\<close>

datatype message = Message string string "msg_arg list"

type_synonym evaluation = "message list"

datatype exn =
    StopGenerator
  | StopGeneratorExcept
  | PatternError string string
  | InvalidLevelspecError
  | AbortInterrupt
  | TypeError
  | IndexError
  | UnboundLocalError

text \<open>A call either returns a value or raises; both leave the messages emitted so far.\<close>

datatype 'a outcome = Return 'a evaluation | Raise exn evaluation

section \<open>External collaborators\<close>

datatype rule = Rule expr expr

text \<open>
  What \<^verbatim>\<open>patterns.py\<close> consumes from the evaluator, the definitions and the rule layer is
  a parameter of the model: \<open>evaluate\<close> (\<^verbatim>\<open>expr.evaluate\<close>), \<open>replace_vars\<close>,
  \<open>is_numeric\<close>, \<open>builtin_test\<close> (the \<^verbatim>\<open>Test\<close> builtin registered under a name, if any),
  \<open>get_value\<close> (\<^verbatim>\<open>definitions.get_value(name, "System`DefaultValues", expr)\<close>),
  \<open>get_option_values\<close> of a matched element and of an options default, \<open>create_error\<close>
  (the exception that compiling a left-hand side raises, if any), \<open>do_apply_rules\<close>
  (\<^verbatim>\<open>Expression.do_apply_rules\<close>, with the level options of \<^verbatim>\<open>Replace\<close> when given),
  \<open>python_levelspec\<close>, \<open>substitutions\<close> (all results of one rule on an expression, in
  the order the matcher enumerates them) and \<open>stopped\<close> (whether an abort was requested
  when \<^verbatim>\<open>check_stopped\<close> runs for the n-th time).
\<close>

record env =
  evaluate :: "expr \<Rightarrow> expr"
  replace_vars :: "expr \<Rightarrow> (string \<rightharpoonup> expr) \<Rightarrow> expr"
  is_numeric :: "expr \<Rightarrow> bool"
  builtin_test :: "string \<Rightarrow> (expr \<Rightarrow> bool) option"
  get_value :: "string \<Rightarrow> expr \<Rightarrow> expr option"
  get_option_values :: "expr \<Rightarrow> (string \<times> expr) list option"
  default_option_values :: "expr \<Rightarrow> (string \<times> expr) list"
  create_error :: "expr \<Rightarrow> exn option"
  do_apply_rules :: "rule list \<Rightarrow> expr \<Rightarrow> (expr \<times> bool) option \<Rightarrow> expr \<times> bool"
  python_levelspec :: "expr \<Rightarrow> expr option"
  substitutions :: "rule \<Rightarrow> expr \<Rightarrow> expr list"
  stopped :: "nat \<Rightarrow> bool"


section \<open>Pattern objects\<close>

text \<open>
  One constructor per pattern class of \<^verbatim>\<open>patterns.py\<close>, holding the fields its
  \<^verbatim>\<open>init\<close> sets; \<open>AtomPattern\<close> and \<open>ExpressionPattern\<close> are the patterns of
  \<^verbatim>\<open>mathics.core.pattern\<close> for every other expression.
\<close>

datatype pat =
    Blank "expr option"
  | BlankSequence "expr option"
  | BlankNullSequence "expr option"
  | Pattern string pat
  | Optional pat "expr option"
  | Alternatives "pat list"
  | Except pat pat
  | Verbatim expr
  | HoldPattern pat
  | PatternTest pat expr
  | Condition pat expr
  | Repeated pat int "int option"
  | OptionsPattern "expr option"
  | AtomPattern expr
  | ExpressionPattern pat "pat list"

record pattern_context =
  vars_dict :: "string \<rightharpoonup> expr"
  head :: "expr option"
  element_index :: "int option"
  element_count :: "int option"

definition new_context :: "(string \<rightharpoonup> expr) \<Rightarrow> pattern_context" where
  "new_context vars = \<lparr>vars_dict = vars, head = None, element_index = None, element_count = None\<rparr>"

type_synonym yield_func = "(string \<rightharpoonup> expr) \<Rightarrow> evaluation \<Rightarrow> unit outcome"

definition tuple_setitem :: "int \<times> int option \<Rightarrow> exn + (int \<times> int option)" where
  "tuple_setitem range_lst = Inl TypeError"

definition py_gt :: "int option \<Rightarrow> int option \<Rightarrow> exn + bool" where
  "py_gt a b = (case (a, b) of (Some x, Some y) \<Rightarrow> Inr (x > y) | _ \<Rightarrow> Inl TypeError)"

fun get_match_count :: "pat \<Rightarrow> exn + (int \<times> int option)"
  and Alternatives_get_match_count :: "(int \<times> int option) option \<Rightarrow> pat list \<Rightarrow> exn + (int \<times> int option)"
where
  "get_match_count (PatternTest p test) = get_match_count p"
| "get_match_count (Alternatives alternatives) = Alternatives_get_match_count None alternatives"
| "get_match_count (Pattern varname p) = get_match_count p"
| "get_match_count (Optional p dflt) = Inr (0, Some 1)"
| "get_match_count (BlankSequence h) = Inr (1, None)"
| "get_match_count (BlankNullSequence h) = Inr (0, None)"
| "get_match_count (Repeated p mn mx) = Inr (mn, mx)"
| "get_match_count (OptionsPattern defaults) = Inr (0, None)"
| "get_match_count (Blank h) = Inr (1, Some 1)"
| "get_match_count (Except c p) = Inr (1, Some 1)"
| "get_match_count (Verbatim content) = Inr (1, Some 1)"
| "get_match_count (HoldPattern p) = Inr (1, Some 1)"
| "get_match_count (Condition p test) = Inr (1, Some 1)"
| "get_match_count (AtomPattern a) = Inr (1, Some 1)"
| "get_match_count (ExpressionPattern hp eps) = Inr (1, Some 1)"
| "Alternatives_get_match_count range_lst [] =
     (case range_lst of None \<Rightarrow> Inl TypeError | Some r \<Rightarrow> Inr r)"
| "Alternatives_get_match_count range_lst (alternative # alternatives) =
     (case get_match_count alternative of
        Inl e \<Rightarrow> Inl e
      | Inr sub \<Rightarrow>
          (case range_lst of
             None \<Rightarrow> Alternatives_get_match_count (Some sub) alternatives
           | Some r \<Rightarrow>
               (case (if fst sub < fst r then tuple_setitem r else Inr r) of
                  Inl e \<Rightarrow> Inl e
                | Inr r1 \<Rightarrow>
                    (case (if snd r1 = None then Inr True else py_gt (snd sub) (snd r1)) of
                       Inl e \<Rightarrow> Inl e
                     | Inr b \<Rightarrow>
                         (case (if b then tuple_setitem r1 else Inr r1) of
                            Inl e \<Rightarrow> Inl e
                          | Inr r2 \<Rightarrow> Alternatives_get_match_count (Some r2) alternatives)))))"


text \<open>The table \<^verbatim>\<open>match_functions\<close> of \<^verbatim>\<open>PatternTest.init\<close>.\<close>

definition match_functions :: "string \<Rightarrow> (env \<Rightarrow> expr \<Rightarrow> bool) option" where
  "match_functions testname =
     (if testname = ''System`AtomQ'' then Some (\<lambda>env item. is_Atom item)
      else if testname = ''System`StringQ'' then Some (\<lambda>env item. is_String item)
      else if testname = ''System`NumericQ'' then
        Some (\<lambda>env item. is_Number item \<or> is_numeric env item)
      else if testname = ''System`NumberQ'' then Some (\<lambda>env item. is_Number item)
      else if testname = ''System`RealValuedNumberQ'' then Some (\<lambda>env item. is_real_number item)
      else if testname = ''Internal`RealValuedNumberQ'' then Some (\<lambda>env item. is_real_number item)
      else if testname = ''System`Posive'' then
        Some (\<lambda>env item. is_real_number item \<and> value_sign item > 0)
      else if testname = ''System`Negative'' then
        Some (\<lambda>env item. is_real_number item \<and> value_sign item < 0)
      else if testname = ''System`NonPositive'' then
        Some (\<lambda>env item. is_real_number item \<and> value_sign item \<le> 0)
      else if testname = ''System`NonNegative'' then
        Some (\<lambda>env item. is_real_number item \<and> value_sign item \<ge> 0)
      else None)"

definition negative_power :: "expr \<Rightarrow> bool" where
  "negative_power candidate =
     (has_form candidate [''System`Power''] (Some [2]) \<and>
      is_real_number (get_elements candidate ! 1) \<and> value_sign (get_elements candidate ! 1) < 0)"

definition quick_pattern_test :: "env \<Rightarrow> expr \<Rightarrow> string \<Rightarrow> bool option" where
  "quick_pattern_test env candidate test =
     (if test = ''System`NegativePowerQ'' then Some (negative_power candidate)
      else if test = ''System`NotNegativePowerQ'' then Some (\<not> negative_power candidate)
      else (case builtin_test env test of Some t \<Rightarrow> Some (t candidate) | None \<Rightarrow> None))"

text \<open>The loop over \<^verbatim>\<open>items\<close> in \<^verbatim>\<open>PatternTest.match\<close>: true when it ends without \<^verbatim>\<open>break\<close>.\<close>

fun test_items :: "env \<Rightarrow> expr \<Rightarrow> expr list \<Rightarrow> bool" where
  "test_items env test [] = True"
| "test_items env test (item0 # items) =
     (let item = evaluate env item0 in
      case quick_pattern_test env item (get_name test) of
        Some False \<Rightarrow> False
      | Some True \<Rightarrow> test_items env test items
      | None \<Rightarrow>
          (if evaluate env (Expression test [item]) \<noteq> SymbolTrue then False
           else test_items env test items))"

text \<open>\<^verbatim>\<open>get_default_value(name, evaluation, k, n)\<close>: from the most specific position to none.\<close>

fun default_lookup :: "env \<Rightarrow> string \<Rightarrow> int list list \<Rightarrow> expr option" where
  "default_lookup env name [] = None"
| "default_lookup env name (pos # others) =
     (let defaultexpr = Expression SymbolDefault (Symbol name # map Integer pos) in
      case get_value env name defaultexpr of
        Some result \<Rightarrow> Some (if sameQ result defaultexpr then evaluate env result else result)
      | None \<Rightarrow> default_lookup env name others)"

definition get_default_value :: "env \<Rightarrow> string \<Rightarrow> int option \<Rightarrow> int option \<Rightarrow> expr option" where
  "get_default_value env name k n =
     (let pos = (case k of None \<Rightarrow> [] | Some i \<Rightarrow> [i]) @ (case n of None \<Rightarrow> [] | Some j \<Rightarrow> [j])
      in default_lookup env name (map (\<lambda>pos_len. take pos_len pos) (rev [0 ..< length pos + 1])))"

text \<open>The loop over the matched elements in \<^verbatim>\<open>OptionsPattern.match\<close>, with \<^verbatim>\<open>values.update\<close>.\<close>

fun collect_options :: "env \<Rightarrow> expr list \<Rightarrow> (string \<times> expr) list \<Rightarrow> (string \<times> expr) list option" where
  "collect_options env [] values = Some values"
| "collect_options env (options # sequence) values =
     (case get_option_values env options of
        None \<Rightarrow> None
      | Some option_values \<Rightarrow> collect_options env sequence (AList.updates (map fst option_values) (map snd option_values) values))"

definition add_options :: "(string \<rightharpoonup> expr) \<Rightarrow> (string \<times> expr) list \<Rightarrow> (string \<rightharpoonup> expr)" where
  "add_options vars values = fold (\<lambda>(name, v) d. d(''_option_'' @ name \<mapsto> v)) values vars"

definition wrap_candidate :: "expr list \<Rightarrow> expr" where
  "wrap_candidate items = (case items of [item] \<Rightarrow> item | _ \<Rightarrow> Expression SymbolSequence items)"

definition candidate_widths :: "int \<Rightarrow> int option \<Rightarrow> nat \<Rightarrow> nat list" where
  "candidate_widths mn mx available =
     filter (\<lambda>w. mn \<le> int w \<and> (case mx of None \<Rightarrow> True | Some m \<Rightarrow> int w \<le> m)) [0 ..< available + 1]"


text \<open>
  A \<^verbatim>\<open>for\<close> loop whose body may raise: the messages are threaded through the iterations and
  an exception ends the loop.
\<close>

fun for_loop :: "'a list \<Rightarrow> ('a \<Rightarrow> evaluation \<Rightarrow> unit outcome) \<Rightarrow> evaluation \<Rightarrow> unit outcome" where
  "for_loop [] body ev = Return () ev"
| "for_loop (x # xs) body ev =
     (case body x ev of
        Raise e ev' \<Rightarrow> Raise e ev'
      | Return u ev' \<Rightarrow> for_loop xs body ev')"

lemma for_loop_cong [fundef_cong]:
  "xs = ys \<Longrightarrow> (\<And>x s. x \<in> set ys \<Longrightarrow> f x s = g x s) \<Longrightarrow> ev = ev'
   \<Longrightarrow> for_loop xs f ev = for_loop ys g ev'"
proof (induction ys arbitrary: xs ev ev')
  case Nil
  then show ?case by simp
next
  case (Cons y ys)
  then show ?case by (auto split: outcome.splits)
qed

type_synonym matcher = "expr \<Rightarrow> pattern_context \<Rightarrow> yield_func \<Rightarrow> evaluation \<Rightarrow> unit outcome"

text \<open>
  The local function \<^verbatim>\<open>iter_fn\<close> of \<^verbatim>\<open>Repeated.match\<close>; \<open>pattern_match\<close> is
  \<^verbatim>\<open>self.pattern.match\<close>.
\<close>

fun iter_fn :: "matcher \<Rightarrow> expr list \<Rightarrow> (string \<rightharpoonup> expr) \<Rightarrow> yield_func \<Rightarrow> evaluation \<Rightarrow> unit outcome" where
  "iter_fn pattern_match [] vars yield_iter ev = yield_iter vars ev"
| "iter_fn pattern_match (first # rest_elements) vars yield_iter ev =
     pattern_match first (new_context vars)
       (\<lambda>new_vars_dict ev'. iter_fn pattern_match rest_elements new_vars_dict yield_iter ev') ev"

lemma iter_fn_cong [fundef_cong]:
  "es = es' \<Longrightarrow> (\<And>e pc k s. e \<in> set es' \<Longrightarrow> m e pc k s = m' e pc k s)
   \<Longrightarrow> vars = vars' \<Longrightarrow> yi = yi' \<Longrightarrow> ev = ev'
   \<Longrightarrow> iter_fn m es vars yi ev = iter_fn m' es' vars' yi' ev'"
proof (induction es' arbitrary: es vars vars' ev ev')
  case Nil
  then show ?case by simp
next
  case (Cons e es')
  then show ?case by simp
qed

text \<open>
  Modelled from the spec: the positional (sequence) matching of an expression pattern
  (\<^verbatim>\<open>mathics.core.pattern\<close> is not among the sources). The elements of the candidate are
  partitioned among the sub-patterns from left to right; each sub-pattern is tried with
  its minimum admissible width first and with larger widths after it; a run of one element
  is handed over as that element, any other run as a \<^verbatim>\<open>Sequence\<close>. \<open>element_match p\<close> is
  the matcher of sub-pattern \<open>p\<close>.
\<close>

fun match_elements :: "(pat \<Rightarrow> matcher) \<Rightarrow> pat list \<Rightarrow> expr list \<Rightarrow> pattern_context \<Rightarrow> yield_func \<Rightarrow> evaluation \<Rightarrow> unit outcome" where
  "match_elements element_match [] elements pc yield_func ev =
     (if elements = [] then yield_func (vars_dict pc) ev else Return () ev)"
| "match_elements element_match (p # ps) elements pc yield_func ev =
     (case get_match_count p of
        Inl e \<Rightarrow> Raise e ev
      | Inr (mn, mx) \<Rightarrow>
          for_loop (candidate_widths mn mx (length elements))
            (\<lambda>w ev1.
               element_match p (wrap_candidate (take w elements))
                 (pc\<lparr>element_index :=
                       (case element_count pc of None \<Rightarrow> None
                        | Some n \<Rightarrow> Some (n - int (length elements) + 1))\<rparr>)
                 (\<lambda>vars ev2. match_elements element_match ps (drop w elements)
                                (pc\<lparr>vars_dict := vars\<rparr>) yield_func ev2)
                 ev1)
            ev)"

lemma match_elements_cong [fundef_cong]:
  "ps = ps' \<Longrightarrow> (\<And>p e pc k s. p \<in> set ps' \<Longrightarrow> m p e pc k s = m' p e pc k s)
   \<Longrightarrow> es = es' \<Longrightarrow> pc = pc' \<Longrightarrow> yf = yf' \<Longrightarrow> ev = ev'
   \<Longrightarrow> match_elements m ps es pc yf ev = match_elements m' ps' es' pc' yf' ev'"
proof (induction ps' arbitrary: ps es es' pc pc' ev ev')
  case Nil
  then show ?case by simp
next
  case (Cons p ps')
  have "\<And>es pc ev. match_elements m ps' es pc yf ev = match_elements m' ps' es pc yf' ev"
    using Cons.IH [OF refl _ refl refl _ refl] Cons.prems(2,5) by simp
  then have rec: "\<And>es pc. match_elements m ps' es pc yf' = match_elements m' ps' es pc yf'"
    using Cons.prems(5) by (intro ext) simp
  show ?case using Cons.prems
    by (auto simp: rec split: sum.splits intro!: for_loop_cong)
qed


text \<open>
  Modelled from the spec: an expression pattern \<open>hp[eps]\<close> matches a compound candidate
  whose head matches \<open>hp\<close> and whose elements match \<open>eps\<close> positionally, under the
  bindings of the head match; the enclosing head and the number of siblings go into the
  context of the elements. An atom never matches it.
\<close>

definition match_expression :: "(pat \<Rightarrow> matcher) \<Rightarrow> pat \<Rightarrow> pat list \<Rightarrow> matcher" where
  "match_expression element_match hp eps expression pc yield_func ev =
     (if is_Expression expression then
        element_match hp (get_head expression) pc
          (\<lambda>vars ev'. match_elements element_match eps (get_elements expression)
                         (pc\<lparr>vars_dict := vars, head := Some (get_head expression),
                             element_count := Some (int (length (get_elements expression)))\<rparr>)
                         yield_func ev') ev
      else Return () ev)"

lemma match_expression_cong [fundef_cong]:
  "hp = hp' \<Longrightarrow> eps = eps'
   \<Longrightarrow> (\<And>p e pc k s. p = hp' \<or> p \<in> set eps' \<Longrightarrow> m p e pc k s = m' p e pc k s)
   \<Longrightarrow> x = x' \<Longrightarrow> pc = pc' \<Longrightarrow> yf = yf' \<Longrightarrow> ev = ev'
   \<Longrightarrow> match_expression m hp eps x pc yf ev = match_expression m' hp' eps' x' pc' yf' ev'"
proof -
  assume a: "hp = hp'" "eps = eps'" "x = x'" "pc = pc'" "yf = yf'" "ev = ev'"
    and m: "\<And>p e pc k s. p = hp' \<or> p \<in> set eps' \<Longrightarrow> m p e pc k s = m' p e pc k s"
  have "\<And>es c s. match_elements m eps' es c yf' s = match_elements m' eps' es c yf' s"
    by (rule match_elements_cong) (simp_all add: m)
  then have rec: "\<And>es c. match_elements m eps' es c yf' = match_elements m' eps' es c yf'"
    by (intro ext)
  show ?thesis
    unfolding match_expression_def a by (simp add: rec m)
qed

fun match :: "env \<Rightarrow> pat \<Rightarrow> expr \<Rightarrow> pattern_context \<Rightarrow> yield_func \<Rightarrow> evaluation \<Rightarrow> unit outcome"
where
  "match env (Blank h) expression pc yield_func ev =
     (if \<not> has_form expression [''System`Sequence''] (Some [0]) then
        (case h of
           Some hx \<Rightarrow> (if sameQ (get_head expression) hx then yield_func (vars_dict pc) ev else Return () ev)
         | None \<Rightarrow> yield_func (vars_dict pc) ev)
      else Return () ev)"
| "match env (BlankSequence h) expression pc yield_func ev =
     (let elements = get_sequence expression in
      if elements = [] then Return () ev
      else (case h of
              Some hx \<Rightarrow> (if list_all (\<lambda>element. \<not> get_head element \<noteq> hx) elements
                          then yield_func (vars_dict pc) ev else Return () ev)
            | None \<Rightarrow> yield_func (vars_dict pc) ev))"
| "match env (BlankNullSequence h) expression pc yield_func ev =
     (let elements = get_sequence expression in
      case h of
        Some hx \<Rightarrow> (if list_all (\<lambda>element. \<not> get_head element \<noteq> hx) elements
                    then yield_func (vars_dict pc) ev else Return () ev)
      | None \<Rightarrow> yield_func (vars_dict pc) ev)"
| "match env (Pattern varname p) expression pc yield_func ev =
     (case vars_dict pc varname of
        None \<Rightarrow> match env p expression (pc\<lparr>vars_dict := (vars_dict pc)(varname \<mapsto> expression)\<rparr>) yield_func ev
      | Some existing \<Rightarrow>
          (if sameQ existing expression then yield_func (vars_dict pc) ev else Return () ev))"
| "match env (Optional p dflt) expression pc yield_func ev =
     (if has_form expression [''System`Sequence''] (Some [0]) then
        (case dflt of
           None \<Rightarrow>
             (case (case head pc of
                      None \<Rightarrow> None
                    | Some hx \<Rightarrow> get_default_value env (get_name hx) (element_index pc) (element_count pc)) of
                None \<Rightarrow>
                  Return () (ev @ [Message ''Pattern'' ''nodef''
                     [case head pc of None \<Rightarrow> ArgNone | Some hx \<Rightarrow> ArgExpr hx,
                      case element_index pc of None \<Rightarrow> ArgNone | Some i \<Rightarrow> ArgInt i,
                      case element_count pc of None \<Rightarrow> ArgNone | Some n \<Rightarrow> ArgInt n]])
              | Some d \<Rightarrow> match env p d (new_context (vars_dict pc)) yield_func ev)
         | Some d \<Rightarrow> match env p d (new_context (vars_dict pc)) yield_func ev)
      else match env p expression (new_context (vars_dict pc)) yield_func ev)"
| "match env (Alternatives alternatives) expression pc yield_func ev =
     for_loop alternatives
       (\<lambda>alternative ev'. match env alternative expression pc yield_func ev') ev"
| "match env (Except c p) expression pc yield_func ev =
     (case match env c expression pc (\<lambda>vars_dict ev'. Raise StopGeneratorExcept ev') ev of
        Raise e ev' \<Rightarrow> (if e = StopGeneratorExcept then Return () ev' else Raise e ev')
      | Return u ev' \<Rightarrow> match env p expression pc yield_func ev')"
| "match env (Verbatim content) expression pc yield_func ev =
     (if sameQ content expression then yield_func (vars_dict pc) ev else Return () ev)"
| "match env (HoldPattern p) expression pc yield_func ev = match env p expression pc yield_func ev"
| "match env (PatternTest p test) expression pc yield_func ev =
     (case match_functions (get_name test) of
        Some item_ok \<Rightarrow>
          match env p expression pc
            (\<lambda>vars_2 ev'. if list_all (item_ok env) (get_sequence expression)
                           then yield_func vars_2 ev' else Return () ev') ev
      | None \<Rightarrow>
          match env p expression (new_context (vars_dict pc))
            (\<lambda>vars_2 ev'. if test_items env test (get_sequence expression)
                           then yield_func vars_2 ev' else Return () ev') ev)"
| "match env (Condition p test) expression pc yield_func ev =
     match env p expression pc
       (\<lambda>new_vars_dict ev'. if evaluate env (replace_vars env test new_vars_dict) = SymbolTrue
                              then yield_func new_vars_dict ev' else Return () ev') ev"
| "match env (Repeated p mn mx) expression pc yield_func ev =
     (let elements = get_sequence expression in
      if int (length elements) < mn then Return () ev
      else if (case mx of None \<Rightarrow> False | Some m \<Rightarrow> int (length elements) > m) then Return () ev
      else iter_fn (\<lambda>e c k s. match env p e c k s) elements (vars_dict pc) yield_func ev)"
| "match env (OptionsPattern defaults) expression pc yield_func ev =
     (let d = (case defaults of
                 Some d \<Rightarrow> d
               | None \<Rightarrow> (case head pc of Some hx \<Rightarrow> hx | None \<Rightarrow> ListExpression []))
      in case collect_options env (get_sequence expression) (default_option_values env d) of
           None \<Rightarrow> Return () ev
         | Some values \<Rightarrow> yield_func (add_options (vars_dict pc) values) ev)"
| "match env (AtomPattern a) expression pc yield_func ev =
     (if sameQ a expression then yield_func (vars_dict pc) ev else Return () ev)"
| "match env (ExpressionPattern hp eps) expression pc yield_func ev =
     match_expression (\<lambda>q e c k s. match env q e c k s) hp eps expression pc yield_func ev"

section \<open>Fixtures for concrete evaluations\<close>

text \<open>
  An evaluator in which nothing is defined: evaluation is the identity, no defaults, no
  options, no built-in tests, no rule applies and no abort is requested.
\<close>

definition idle_env :: env where
  "idle_env = \<lparr>evaluate = (\<lambda>e. e), replace_vars = (\<lambda>e vars. e), is_numeric = is_Number,
     builtin_test = (\<lambda>name. None), get_value = (\<lambda>name e. None),
     get_option_values = (\<lambda>e. None), default_option_values = (\<lambda>e. []),
     create_error = (\<lambda>e. None), do_apply_rules = (\<lambda>rules e opts. (e, False)),
     python_levelspec = (\<lambda>e. Some e), substitutions = (\<lambda>r e. []), stopped = (\<lambda>n. False)\<rparr>"

text \<open>The continuation of a caller that wants the first match only: it raises the stop signal.\<close>

definition stop_at_first :: yield_func where
  "stop_at_first vars ev = Raise StopGenerator ev"

section \<open>Named patterns\<close>

text \<open>
  C10. When the variable of \<^verbatim>\<open>Pattern[name, inner]\<close> is already bound and the candidate is
  \<^verbatim>\<open>sameQ\<close> to the binding, \<^verbatim>\<open>Pattern.match\<close> yields the unchanged bindings at once:
  the inner pattern is not consulted, whatever it is.
\<close>

theorem Pattern_match_bound_skips_inner:
  "vars_dict pc varname = Some existing \<Longrightarrow> sameQ existing expression
   \<Longrightarrow> match env (Pattern varname inner) expression pc yield_func ev = yield_func (vars_dict pc) ev"
  by simp

text \<open>
  With \<open>x\<close> bound to the symbol \<open>a\<close>, the pattern \<open>x_Integer\<close> matches \<open>a\<close>, although
  \<open>_Integer\<close> alone does not.
\<close>

theorem Pattern_match_bound_skips_inner_witness:
  "vars_dict (new_context [''Global`x'' \<mapsto> Symbol ''Global`a'']) ''Global`x'' = Some (Symbol ''Global`a'')
   \<and> sameQ (Symbol ''Global`a'') (Symbol ''Global`a'')
   \<and> match idle_env (Blank (Some (Symbol ''System`Integer''))) (Symbol ''Global`a'')
        (new_context [''Global`x'' \<mapsto> Symbol ''Global`a'']) stop_at_first [] = Return () []
   \<and> match idle_env (Pattern ''Global`x'' (Blank (Some (Symbol ''System`Integer'')))) (Symbol ''Global`a'')
        (new_context [''Global`x'' \<mapsto> Symbol ''Global`a'']) stop_at_first [] = Raise StopGenerator []"
  using Pattern_match_bound_skips_inner [of "new_context [''Global`x'' \<mapsto> Symbol ''Global`a'']"
      "''Global`x''" "Symbol ''Global`a''" "Symbol ''Global`a''" idle_env
      "Blank (Some (Symbol ''System`Integer''))" stop_at_first "[]"]
  by (simp add: new_context_def sameQ_def stop_at_first_def has_form_def)

section \<open>Sequence blanks\<close>

lemma get_sequence_empty: "get_sequence (Expression SymbolSequence []) = []"
  by (simp add: get_sequence_def)

lemma BlankSequence_empty:
  "match env (BlankSequence h) (Expression SymbolSequence []) pc yield_func ev = Return () ev"
  by (simp add: get_sequence_empty)

lemma BlankNullSequence_empty:
  "match env (BlankNullSequence None) (Expression SymbolSequence []) pc yield_func ev
     = yield_func (vars_dict pc) ev"
  by simp

lemma BlankSequence_head:
  "match env (BlankSequence (Some hx)) expression pc yield_func ev =
     (if get_sequence expression \<noteq> [] \<and> (\<forall>element \<in> set (get_sequence expression). get_head element = hx)
      then yield_func (vars_dict pc) ev else Return () ev)"
  by (simp add: Let_def list_all_iff)

lemma BlankNullSequence_head:
  "match env (BlankNullSequence (Some hx)) expression pc yield_func ev =
     (if (\<forall>element \<in> set (get_sequence expression). get_head element = hx)
      then yield_func (vars_dict pc) ev else Return () ev)"
  by (simp add: Let_def list_all_iff)

text \<open>
  C6. Against the empty sequence \<^verbatim>\<open>BlankSequence\<close> never calls its continuation (with or
  without a head), and \<^verbatim>\<open>BlankNullSequence[]\<close> calls it, once, with the bindings unchanged.
  With a head \<open>hx\<close> either pattern succeeds exactly when every element of the run has head
  \<open>hx\<close> (and, for \<^verbatim>\<open>BlankSequence\<close>, the run is not empty).
\<close>

theorem BlankSequence_BlankNullSequence_arity:
  "match env (BlankSequence h) (Expression SymbolSequence []) pc yield_func ev = Return () ev
   \<and> match env (BlankNullSequence None) (Expression SymbolSequence []) pc yield_func ev
       = yield_func (vars_dict pc) ev
   \<and> match env (BlankSequence (Some hx)) expression pc yield_func ev =
       (if get_sequence expression \<noteq> [] \<and> (\<forall>element \<in> set (get_sequence expression). get_head element = hx)
        then yield_func (vars_dict pc) ev else Return () ev)
   \<and> match env (BlankNullSequence (Some hx)) expression pc yield_func ev =
       (if (\<forall>element \<in> set (get_sequence expression). get_head element = hx)
        then yield_func (vars_dict pc) ev else Return () ev)"
  by (intro conjI BlankSequence_empty BlankNullSequence_empty BlankSequence_head
        BlankNullSequence_head)

theorem BlankSequence_BlankNullSequence_arity_witness:
  "match idle_env (BlankSequence None) (Expression SymbolSequence []) (new_context Map.empty)
     stop_at_first [] = Return () []
   \<and> match idle_env (BlankNullSequence None) (Expression SymbolSequence []) (new_context Map.empty)
       stop_at_first [] = Raise StopGenerator []
   \<and> match idle_env (BlankSequence (Some (Symbol ''System`Integer'')))
       (Expression SymbolSequence [Integer 1, Integer 2]) (new_context Map.empty)
       stop_at_first [] = Raise StopGenerator []
   \<and> match idle_env (BlankNullSequence (Some (Symbol ''System`Integer'')))
       (Expression SymbolSequence [Integer 1, Real 1 1]) (new_context Map.empty)
       stop_at_first [] = Return () []"
  using BlankSequence_BlankNullSequence_arity [of idle_env None "new_context Map.empty"
      stop_at_first "[]" "Symbol ''System`Integer''" "Expression SymbolSequence [Integer 1, Integer 2]"]
    BlankSequence_BlankNullSequence_arity [of idle_env None "new_context Map.empty"
      stop_at_first "[]" "Symbol ''System`Integer''" "Expression SymbolSequence [Integer 1, Real 1 1]"]
  by (simp add: get_sequence_def stop_at_first_def new_context_def)

section \<open>Match counts of alternatives\<close>

text \<open>
  The merge the specification describes for \<^verbatim>\<open>Alternatives.get_match_count\<close>: the least of the
  minimums and the greatest of the maximums, where \<open>None\<close> (unbounded) is above every number.
\<close>

definition merge_two :: "int \<times> int option \<Rightarrow> int \<times> int option \<Rightarrow> int \<times> int option" where
  "merge_two sub range_lst =
     (min (fst range_lst) (fst sub),
      case (snd range_lst, snd sub) of (Some a, Some b) \<Rightarrow> Some (max a b) | _ \<Rightarrow> None)"

fun merged_match_count :: "(int \<times> int option) list \<Rightarrow> (int \<times> int option) option" where
  "merged_match_count [] = None"
| "merged_match_count (c # cs) = Some (fold merge_two cs c)"

text \<open>
  C9. On \<^verbatim>\<open>BlankSequence[] | BlankNullSequence[]\<close> the merge is \<open>(0, None)\<close>, but
  \<^verbatim>\<open>Alternatives.get_match_count\<close> raises: \<^verbatim>\<open>range_lst\<close> is a tuple, and the second
  alternative's smaller minimum is assigned to \<^verbatim>\<open>range_lst[0]\<close>.
\<close>

theorem Alternatives_get_match_count_raises:
  "get_match_count (Alternatives [BlankSequence None, BlankNullSequence None]) = Inl TypeError
   \<and> get_match_count (BlankSequence None) = Inr (1, None)
   \<and> get_match_count (BlankNullSequence None) = Inr (0, None)
   \<and> merged_match_count [(1, None), (0, None)] = Some (0, None)"
  by (simp add: tuple_setitem_def merge_two_def)

text \<open>A bounded first alternative followed by an unbounded one fails on the comparison with \<^verbatim>\<open>None\<close>.\<close>

lemma Alternatives_get_match_count_unbounded_raises: "get_match_count (Alternatives [Blank None, BlankSequence None]) = Inl TypeError"
  by (simp add: tuple_setitem_def py_gt_def)

section \<open>Optional patterns without a default\<close>





definition Default_expr :: "string \<Rightarrow> int list \<Rightarrow> expr" where
  "Default_expr name pos = Expression SymbolDefault (Symbol name # map Integer pos)"

definition stored_default :: "env \<Rightarrow> string \<Rightarrow> int list \<Rightarrow> expr option" where
  "stored_default env name pos =
     (case get_value env name (Default_expr name pos) of
        None \<Rightarrow> None
      | Some result \<Rightarrow>
          Some (if sameQ result (Default_expr name pos) then evaluate env result else result))"


lemma default_lookup_Cons:
  "default_lookup env name (pos # others) =
     (case stored_default env name pos of
        Some r \<Rightarrow> Some r
      | None \<Rightarrow> default_lookup env name others)"
  by (simp add: stored_default_def Default_expr_def Let_def split: option.splits)


lemma get_default_value_neither:
  "get_default_value env name None None = stored_default env name []"
proof -
  have eq: "get_default_value env name None None = default_lookup env name [[]]"
    by (simp add: get_default_value_def Let_def del: default_lookup.simps)
  show ?thesis
    unfolding eq default_lookup_Cons default_lookup.simps(1) by (simp split: option.splits)
qed












section \<open>Compiling a repeated pattern\<close>

text \<open>
  \<^verbatim>\<open>Repeated.init\<close>; \<open>create\<close> is \<^verbatim>\<open>BasePattern.create\<close>, \<open>min_idx\<close> is 1 for
  \<^verbatim>\<open>Repeated\<close> and 0 for \<^verbatim>\<open>RepeatedNull\<close>. The test \<^verbatim>\<open>elif element_1.get_int_value():\<close> is
  Python truthiness: \<^verbatim>\<open>None\<close> and 0 are false. After \<^verbatim>\<open>allnumbers\<close> the first element of
  the list has an integer value, so the \<open>None\<close> branch of the minimum is never taken.
\<close>

definition Repeated_init :: "(expr \<Rightarrow> exn + pat) \<Rightarrow> expr \<Rightarrow> int \<Rightarrow> exn + pat" where
  "Repeated_init create expr min_idx =
     (case get_elements expr of
        [] \<Rightarrow> Inl IndexError
      | element_0 # others \<Rightarrow>
          (case create element_0 of
             Inl e \<Rightarrow> Inl e
           | Inr pattern \<Rightarrow>
               (if length (get_elements expr) = 2 then
                  (let element_1 = get_elements expr ! 1;
                       allnumbers = (\<not> list_ex (\<lambda>element. get_int_value element = None)
                                        (get_elements element_1))
                   in if has_form element_1 [''System`List''] (Some [1, 2]) \<and> allnumbers then
                        (case get_int_value (get_elements element_1 ! 0) of
                           Some mn \<Rightarrow> Inr (Repeated pattern mn (get_int_value (last (get_elements element_1))))
                         | None \<Rightarrow> Inl TypeError)
                      else if (case get_int_value element_1 of Some n \<Rightarrow> n \<noteq> 0 | None \<Rightarrow> False) then
                        Inr (Repeated pattern min_idx (get_int_value element_1))
                      else Inl (PatternError ''Repeated'' ''range''))
                else Inr (Repeated pattern min_idx None))))"

definition Repeated_expr :: "expr \<Rightarrow> expr \<Rightarrow> expr" where
  "Repeated_expr p range_spec = Expression (Symbol ''System`Repeated'') [p, range_spec]"

text \<open>
  C8 as stated fails: \<^verbatim>\<open>Repeated[a, -3]\<close> compiles, with maximum \<open>-3\<close>, although the range
  is not a non-negative integer.
\<close>

theorem Repeated_init_negative_max:
  "Repeated_init (\<lambda>e. Inr (AtomPattern e)) (Repeated_expr (Symbol ''Global`a'') (Integer (- 3))) 1
     = Inr (Repeated (AtomPattern (Symbol ''Global`a'')) 1 (Some (- 3)))"
  by (simp add: Repeated_init_def Repeated_expr_def has_form_def)

text \<open>The range 0 is rejected, by the truthiness test.\<close>

lemma Repeated_init_zero:
  "Repeated_init (\<lambda>e. Inr (AtomPattern e)) (Repeated_expr (Symbol ''Global`a'') (Integer 0)) 1
     = Inl (PatternError ''Repeated'' ''range'')"
  by (simp add: Repeated_init_def Repeated_expr_def has_form_def)

lemma has_form_List_12:
  "has_form e [''System`List''] (Some [1, 2]) \<and> \<not> list_ex (\<lambda>x. get_int_value x = None) (get_elements e)
   \<longleftrightarrow> (\<exists>a. e = ListExpression [Integer a]) \<or> (\<exists>a b. e = ListExpression [Integer a, Integer b])"
  (is "?L \<longleftrightarrow> ?R")
proof
  assume L: ?L
  then obtain h es where e: "e = Expression h es" by (cases e) (auto simp: has_form_def)
  from L e have "get_name h = ''System`List''" by (simp add: has_form_def)
  then have h: "h = SymbolList" by (cases h) (auto simp: SymbolList_def)
  from L e have len: "length es = 1 \<or> length es = 2" by (auto simp: has_form_def)
  from L e have ints: "\<forall>x \<in> set es. \<exists>n. x = Integer n"
    by (auto simp: list_ex_iff elim!: get_int_value.elims)
  from len show ?R
  proof
    assume "length es = 1"
    then obtain x where "es = [x]" by (cases es) auto
    with ints e h show ?R by (auto simp: ListExpression_def)
  next
    assume "length es = 2"
    then obtain x y where "es = [x, y]" by (cases es; cases "tl es") auto
    with ints e h show ?R by (auto simp: ListExpression_def)
  qed
next
  assume ?R
  then show ?L by (auto simp: has_form_def ListExpression_def SymbolList_def)
qed


lemma Repeated_init_integer:
  "create p = Inr pattern \<Longrightarrow> n \<noteq> 0
   \<Longrightarrow> Repeated_init create (Repeated_expr p (Integer n)) min_idx = Inr (Repeated pattern min_idx (Some n))"
  by (simp add: Repeated_init_def Repeated_expr_def has_form_def)

lemma Repeated_init_list1:
  "create p = Inr pattern
   \<Longrightarrow> Repeated_init create (Repeated_expr p (ListExpression [Integer a])) min_idx
       = Inr (Repeated pattern a (Some a))"
  by (simp add: Repeated_init_def Repeated_expr_def has_form_def ListExpression_def SymbolList_def)

lemma Repeated_init_list2:
  "create p = Inr pattern
   \<Longrightarrow> Repeated_init create (Repeated_expr p (ListExpression [Integer a, Integer b])) min_idx
       = Inr (Repeated pattern a (Some b))"
  by (simp add: Repeated_init_def Repeated_expr_def has_form_def ListExpression_def SymbolList_def)

lemma Repeated_init_reject:
  assumes c: "create p = Inr pattern"
    and n: "\<forall>n. range_spec \<noteq> Integer n"
    and l1: "\<forall>a. range_spec \<noteq> ListExpression [Integer a]"
    and l2: "\<forall>a b. range_spec \<noteq> ListExpression [Integer a, Integer b]"
  shows "Repeated_init create (Repeated_expr p range_spec) min_idx = Inl (PatternError ''Repeated'' ''range'')"
proof -
  have a: "\<not> (has_form range_spec [''System`List''] (Some [1, 2])
      \<and> \<not> list_ex (\<lambda>x. get_int_value x = None) (get_elements range_spec))"
    using l1 l2 by (simp only: has_form_List_12) blast
  have b: "get_int_value range_spec = None"
    using n by (cases range_spec) auto
  show ?thesis
    using a b c by (auto simp: Repeated_init_def Repeated_expr_def Let_def)
qed

text \<open>
  C8, amended. With an explicit range the compilation succeeds when the range is a non-zero
  integer \<open>n\<close> (maximum \<open>n\<close>, minimum unchanged) or a list of one or two integers of any
  sign (minimum the first, maximum the last); a range that is neither an integer nor such
  a list is rejected with the \<^verbatim>\<open>range\<close> pattern error.
\<close>

theorem Repeated_init_range:
  assumes "create p = Inr pattern"
  shows "(n \<noteq> 0 \<longrightarrow> Repeated_init create (Repeated_expr p (Integer n)) min_idx
            = Inr (Repeated pattern min_idx (Some n)))
    \<and> Repeated_init create (Repeated_expr p (ListExpression [Integer a])) min_idx
        = Inr (Repeated pattern a (Some a))
    \<and> Repeated_init create (Repeated_expr p (ListExpression [Integer a, Integer b])) min_idx
        = Inr (Repeated pattern a (Some b))
    \<and> ((\<forall>n. range_spec \<noteq> Integer n) \<and> (\<forall>a. range_spec \<noteq> ListExpression [Integer a])
        \<and> (\<forall>a b. range_spec \<noteq> ListExpression [Integer a, Integer b])
       \<longrightarrow> Repeated_init create (Repeated_expr p range_spec) min_idx
            = Inl (PatternError ''Repeated'' ''range''))"
  using assms Repeated_init_integer Repeated_init_list1 Repeated_init_list2 Repeated_init_reject
  by (intro conjI impI) auto

theorem Repeated_init_range_witness:
  "Repeated_init (\<lambda>e. Inr (AtomPattern e)) (Repeated_expr (Symbol ''Global`a'') (Integer 3)) 1
      = Inr (Repeated (AtomPattern (Symbol ''Global`a'')) 1 (Some 3))
   \<and> Repeated_init (\<lambda>e. Inr (AtomPattern e)) (Repeated_expr (Symbol ''Global`a'') (ListExpression [Integer 2])) 1
      = Inr (Repeated (AtomPattern (Symbol ''Global`a'')) 2 (Some 2))
   \<and> Repeated_init (\<lambda>e. Inr (AtomPattern e))
        (Repeated_expr (Symbol ''Global`a'') (ListExpression [Integer 2, Integer 5])) 1
      = Inr (Repeated (AtomPattern (Symbol ''Global`a'')) 2 (Some 5))
   \<and> Repeated_init (\<lambda>e. Inr (AtomPattern e)) (Repeated_expr (Symbol ''Global`a'') (Symbol ''Global`b'')) 1
      = Inl (PatternError ''Repeated'' ''range'')"
proof -
  have c: "(\<lambda>e. Inr (AtomPattern e) :: exn + pat) (Symbol ''Global`a'') = Inr (AtomPattern (Symbol ''Global`a''))"
    by simp
  have r: "(\<forall>n. Symbol ''Global`b'' \<noteq> Integer n) \<and> (\<forall>a. Symbol ''Global`b'' \<noteq> ListExpression [Integer a])
        \<and> (\<forall>a b. Symbol ''Global`b'' \<noteq> ListExpression [Integer a, Integer b])"
    by (simp add: ListExpression_def)
  have three: "(3::int) \<noteq> 0" by simp
  show ?thesis
    using Repeated_init_range [where create = "\<lambda>e. Inr (AtomPattern e)" and p = "Symbol ''Global`a''"
        and pattern = "AtomPattern (Symbol ''Global`a'')" and n = 3 and min_idx = 1 and a = 2 and b = 5
        and range_spec = "Symbol ''Global`b''"] r three
    by blast
qed

section \<open>Rule normalisation and the Replace family\<close>

text \<open>
  \<^verbatim>\<open>Rule(pattern, replace)\<close> compiles its left-hand side and may raise; the rule itself is
  the pair of left-hand side and replacement.
\<close>

definition new_Rule :: "env \<Rightarrow> expr \<Rightarrow> expr \<Rightarrow> exn + rule" where
  "new_Rule env lhs rhs = (case create_error env lhs of Some e \<Rightarrow> Inl e | None \<Rightarrow> Inr (Rule lhs rhs))"

text \<open>
  \<^verbatim>\<open>Dispatch.__init__\<close>: \<^verbatim>\<open>[Rule(rule.elements[0], rule.elements[1]) for rule in rulelist]\<close>.
  The rules of a \<^verbatim>\<open>Dispatch\<close> atom are those its constructor built from its source list.
\<close>

fun Dispatch_init :: "env \<Rightarrow> expr list \<Rightarrow> exn + rule list" where
  "Dispatch_init env [] = Inr []"
| "Dispatch_init env (rule # rulelist) =
     (case get_elements rule of
        lhs # rhs # others \<Rightarrow>
          (case new_Rule env lhs rhs of
             Inl e \<Rightarrow> Inl e
           | Inr r \<Rightarrow> (case Dispatch_init env rulelist of Inl e \<Rightarrow> Inl e | Inr rs \<Rightarrow> Inr (r # rs)))
      | _ \<Rightarrow> Inl IndexError)"

datatype rules_value = RuleList "rule list" | Elem expr | NoneValue

text \<open>What \<^verbatim>\<open>create_rules\<close> returns: a pair, or (for a \<^verbatim>\<open>Dispatch[...]\<close> expression) a bare object.\<close>

datatype create_rules_value = Pair rules_value bool | DispatchObject "expr list"

fun create_rules_loop :: "env \<Rightarrow> string \<Rightarrow> rule list \<Rightarrow> expr list \<Rightarrow> evaluation \<Rightarrow> create_rules_value outcome" where
  "create_rules_loop env name result [] ev = Return (Pair (RuleList result) False) ev"
| "create_rules_loop env name result (rule # rules) ev =
     (if get_head rule \<notin> {SymbolRule, SymbolRuleDelayed} then
        Return (Pair NoneValue True) (ev @ [Message name ''reps'' [ArgExpr rule]])
      else if length (get_elements rule) \<noteq> 2 then
        Return (Pair NoneValue True)
          (ev @ [Message (get_head_name rule) ''argrx'' [ArgStr (get_head_name rule), ArgInt 3, ArgInt 2]])
      else (case new_Rule env (get_elements rule ! 0) (get_elements rule ! 1) of
              Inl e \<Rightarrow> Raise e ev
            | Inr r \<Rightarrow> create_rules_loop env name (result @ [r]) rules ev))"

definition rule_items :: "expr \<Rightarrow> expr list" where
  "rule_items rules_expr =
     (if has_form rules_expr [''System`List''] None then get_elements rules_expr else [rules_expr])"

fun is_Dispatch :: "expr \<Rightarrow> bool" where
  "is_Dispatch (Dispatch src) = True"
| "is_Dispatch _ = False"

fun Dispatch_src :: "expr \<Rightarrow> expr list" where
  "Dispatch_src (Dispatch src) = src"
| "Dispatch_src _ = []"

definition create_rules ::
  "env \<Rightarrow> expr \<Rightarrow> expr \<Rightarrow> string \<Rightarrow> expr list \<Rightarrow> evaluation \<Rightarrow> create_rules_value outcome" where
  "create_rules env rules_expr expr name extra_args ev =
     (if is_Dispatch rules_expr then
        (case Dispatch_init env (Dispatch_src rules_expr) of
           Inl e \<Rightarrow> Raise e ev
         | Inr rs \<Rightarrow> Return (Pair (RuleList rs) False) ev)
      else if has_form rules_expr [''System`Dispatch''] None then
        (case Dispatch_init env (get_elements rules_expr) of
           Inl e \<Rightarrow> Raise e ev
         | Inr rs \<Rightarrow> Return (DispatchObject (get_elements rules_expr)) ev)
      else
        (let rules = rule_items rules_expr;
             any_lists = list_ex (\<lambda>item. get_head item \<in> {SymbolList, SymbolDispatch}) rules
         in if any_lists then
              (let all_lists = list_all (\<lambda>item. \<not> get_head item \<noteq> SymbolList) rules
               in if all_lists then
                    Return (Pair (Elem (ListExpression
                       (map (\<lambda>item. Expression (Symbol name) (expr # item # extra_args)) rules))) True) ev
                  else Return (Pair NoneValue True) (ev @ [Message name ''rmix'' [ArgExpr rules_expr]]))
            else create_rules_loop env name [] rules ev))"

fun is_PatternError :: "exn \<Rightarrow> bool" where
  "is_PatternError (PatternError name tag) = True"
| "is_PatternError _ = False"

text \<open>\<^verbatim>\<open>if ret: return rules\<close>: the first component as the result of the builtin.\<close>

fun returned :: "rules_value \<Rightarrow> expr option" where
  "returned (Elem e) = Some e"
| "returned NoneValue = None"
| "returned (RuleList rs) = None"

fun rules_of :: "rules_value \<Rightarrow> rule list" where
  "rules_of (RuleList rs) = rs"
| "rules_of _ = []"



text \<open>
  Modelled from the spec: \<^verbatim>\<open>Rule.apply(expr, evaluation, return_list=True, max_list=n)\<close>
  (\<^verbatim>\<open>mathics.core.rules\<close> is not among the sources) collects every successful substitution
  of the rule, bounded by \<^verbatim>\<open>max_list\<close>.
\<close>

definition Rule_apply_list :: "env \<Rightarrow> rule \<Rightarrow> expr \<Rightarrow> int option \<Rightarrow> expr list" where
  "Rule_apply_list env rule expr max_list =
     (case max_list of
        None \<Rightarrow> substitutions env rule expr
      | Some n \<Rightarrow> take (nat n) (substitutions env rule expr))"

definition ReplaceList_eval :: "env \<Rightarrow> expr \<Rightarrow> expr \<Rightarrow> expr \<Rightarrow> evaluation \<Rightarrow> expr option outcome" where
  "ReplaceList_eval env expr rules maxidx ev =
     (let max_count = (if maxidx = SymbolInfinity then None else get_int_value maxidx)
      in if maxidx \<noteq> SymbolInfinity \<and> (case max_count of None \<Rightarrow> True | Some n \<Rightarrow> n < 0) then
           Return None (ev @ [Message ''ReplaceList'' ''innf'' [ArgInt 3]])
         else
           (case create_rules env rules expr ''ReplaceList'' [maxidx] ev of
              Raise e ev' \<Rightarrow>
                (if is_PatternError e then Return None (ev' @ [Message ''Replace'' ''reps'' [ArgExpr rules]])
                 else Raise e ev')
            | Return (DispatchObject src) ev' \<Rightarrow> Raise TypeError ev'
            | Return (Pair rules' ret) ev' \<Rightarrow>
                (if ret then Return (returned rules') ev'
                 else Return (Some (ListExpression
                        (concat (map (\<lambda>rule. Rule_apply_list env rule expr max_count) (rules_of rules'))))) ev')))"


text \<open>
  The loop of \<^verbatim>\<open>ReplaceRepeated.eval_list\<close>. It may run forever, so the model returns an
  option: \<open>None\<close> is a loop that never ends. \<open>result\<close> is \<open>None\<close> while the Python
  variable \<^verbatim>\<open>result\<close> is unbound; \<open>i\<close> counts the calls of \<^verbatim>\<open>check_stopped\<close>.
\<close>

partial_function (option) replace_repeated_loop ::
  "env \<Rightarrow> rule list \<Rightarrow> expr \<Rightarrow> int \<Rightarrow> expr option \<Rightarrow> nat \<Rightarrow> evaluation \<Rightarrow> expr option outcome option"
where
  "replace_repeated_loop env rules expr maxit result i ev =
     (if stopped env i then Some (Raise AbortInterrupt ev)
      else if maxit = 0 then
        Some (case result of None \<Rightarrow> Raise UnboundLocalError ev | Some r \<Rightarrow> Return (Some r) ev)
      else
        (let applied = snd (do_apply_rules env rules expr None);
             result' = (if applied then evaluate env (fst (do_apply_rules env rules expr None))
                        else fst (do_apply_rules env rules expr None))
         in if applied \<and> \<not> sameQ result' expr
            then replace_repeated_loop env rules result' (maxit - 1) (Some result') (Suc i) ev
            else Some (Return (Some result') ev)))"

definition ReplaceRepeated_eval_list ::
  "env \<Rightarrow> expr \<Rightarrow> expr \<Rightarrow> expr \<Rightarrow> evaluation \<Rightarrow> expr option outcome option" where
  "ReplaceRepeated_eval_list env expr rules MaxIterations ev =
     (case create_rules env rules expr ''ReplaceRepeated'' [] ev of
        Raise e ev' \<Rightarrow>
          (if is_PatternError e then Some (Return None (ev' @ [Message ''Replace'' ''reps'' [ArgExpr rules]]))
           else Some (Raise e ev'))
      | Return (DispatchObject src) ev' \<Rightarrow> Some (Raise TypeError ev')
      | Return (Pair rules' ret) ev' \<Rightarrow>
          (if ret then Some (Return (returned rules') ev')
           else (case (if is_numeric env MaxIterations then get_int_value MaxIterations else Some (- 1)) of
                   None \<Rightarrow> Some (Raise (if stopped env 0 then AbortInterrupt else TypeError) ev')
                 | Some maxit \<Rightarrow> replace_repeated_loop env (rules_of rules') expr maxit None 0 ev')))"

definition rule_expr :: "expr \<Rightarrow> expr \<Rightarrow> expr" where
  "rule_expr lhs rhs = Expression SymbolRule [lhs, rhs]"

lemma create_rules_one:
  "create_rules idle_env (rule_expr (Symbol ''Global`a'') (Symbol ''Global`b'')) expr name extra ev
     = Return (Pair (RuleList [Rule (Symbol ''Global`a'') (Symbol ''Global`b'')]) False) ev"
  by (simp add: create_rules_def rule_expr_def has_form_def rule_items_def SymbolRule_def SymbolList_def
      SymbolDispatch_def SymbolRuleDelayed_def new_Rule_def idle_env_def)

text \<open>
  C1. With \<^verbatim>\<open>MaxIterations -> 0\<close> the loop of \<^verbatim>\<open>ReplaceRepeated.eval_list\<close> leaves at once
  through \<^verbatim>\<open>if maxit == 0: break\<close>, and \<^verbatim>\<open>return result\<close> reads a variable that was never
  assigned: the call raises instead of returning a result.
\<close>

theorem ReplaceRepeated_zero_iterations:
  "ReplaceRepeated_eval_list idle_env (Symbol ''Global`a'')
     (rule_expr (Symbol ''Global`a'') (Symbol ''Global`b'')) (Integer 0) []
   = Some (Raise UnboundLocalError [])"
proof -
  have n: "is_numeric idle_env (Integer 0)" by (simp add: idle_env_def)
  have s: "\<not> stopped idle_env 0" by (simp add: idle_env_def)
  have l: "replace_repeated_loop idle_env rs (Symbol ''Global`a'') 0 None 0 [] = Some (Raise UnboundLocalError [])" for rs
    by (subst replace_repeated_loop.simps) (simp add: s)
  show ?thesis
    by (simp add: ReplaceRepeated_eval_list_def create_rules_one n l)
qed

text \<open>
  One iteration of the loop: the expression after \<^verbatim>\<open>do_apply_rules\<close> (evaluated when a rule
  applied), and whether the loop goes on after it.
\<close>

definition replace_step :: "env \<Rightarrow> rule list \<Rightarrow> expr \<Rightarrow> expr" where
  "replace_step env rules expr =
     (if snd (do_apply_rules env rules expr None)
      then evaluate env (fst (do_apply_rules env rules expr None))
      else fst (do_apply_rules env rules expr None))"

definition changed :: "env \<Rightarrow> rule list \<Rightarrow> expr \<Rightarrow> bool" where
  "changed env rules expr =
     (snd (do_apply_rules env rules expr None) \<and> \<not> sameQ (replace_step env rules expr) expr)"

lemma loop_unfold:
  "\<not> stopped env i \<Longrightarrow> maxit \<noteq> 0 \<Longrightarrow>
   replace_repeated_loop env rules expr maxit result i ev =
     (if changed env rules expr
      then replace_repeated_loop env rules (replace_step env rules expr) (maxit - 1)
             (Some (replace_step env rules expr)) (Suc i) ev
      else Some (Return (Some (replace_step env rules expr)) ev))"
  by (subst replace_repeated_loop.simps) (simp add: Let_def changed_def replace_step_def)

lemma loop_zero:
  "\<not> stopped env i \<Longrightarrow>
   replace_repeated_loop env rules expr 0 (Some r) i ev = Some (Return (Some r) ev)"
  by (subst replace_repeated_loop.simps) simp


text \<open>
  The rest of C1. Without abort and with a cap \<open>n\<close> of at least 1 the loop returns after
  \<open>k\<close> applications, \<open>1 \<le> k \<le> n\<close>, the result of the last one; every application before
  the last changed the expression, and when it stops before the cap the last one did not.
  Without a cap (a negative \<^verbatim>\<open>maxit\<close>) whatever it returns is the result of an application
  that did not change the expression.
\<close>

lemma loop_cap_bound:
  assumes ns: "\<forall>i. \<not> stopped env i"
  shows "\<exists>k\<le>n. replace_repeated_loop env rules expr (int n) (Some r0) i ev
            = Some (Return (Some (if k = 0 then r0 else (replace_step env rules ^^ k) expr)) ev)
          \<and> (\<forall>j. j + 1 < k \<longrightarrow> changed env rules ((replace_step env rules ^^ j) expr))
          \<and> (k < n \<longrightarrow> 0 < k \<and> \<not> changed env rules ((replace_step env rules ^^ (k - 1)) expr))"
proof (induction n arbitrary: expr r0 i)
  case 0
  show ?case using ns by (simp add: loop_zero)
next
  case (Suc n)
  let ?e = "replace_step env rules expr"
  have u: "replace_repeated_loop env rules expr (int (Suc n)) (Some r0) i ev =
     (if changed env rules expr
      then replace_repeated_loop env rules ?e (int n) (Some ?e) (Suc i) ev
      else Some (Return (Some ?e) ev))"
    using ns by (subst loop_unfold) simp_all
  show ?case
  proof (cases "changed env rules expr")
    case False
    have "Suc 0 \<le> Suc n
        \<and> replace_repeated_loop env rules expr (int (Suc n)) (Some r0) i ev
            = Some (Return (Some (if Suc 0 = 0 then r0 else (replace_step env rules ^^ Suc 0) expr)) ev)
        \<and> (\<forall>j. j + 1 < Suc 0 \<longrightarrow> changed env rules ((replace_step env rules ^^ j) expr))
        \<and> (Suc 0 < Suc n \<longrightarrow> 0 < Suc 0 \<and> \<not> changed env rules ((replace_step env rules ^^ (Suc 0 - 1)) expr))"
      using False u by simp
    then show ?thesis by blast
  next
    case True
    from Suc.IH [of ?e ?e "Suc i"] obtain k where k: "k \<le> n"
      and r: "replace_repeated_loop env rules ?e (int n) (Some ?e) (Suc i) ev
            = Some (Return (Some (if k = 0 then ?e else (replace_step env rules ^^ k) ?e)) ev)"
      and c: "\<forall>j. j + 1 < k \<longrightarrow> changed env rules ((replace_step env rules ^^ j) ?e)"
      and l: "k < n \<longrightarrow> 0 < k \<and> \<not> changed env rules ((replace_step env rules ^^ (k - 1)) ?e)"
      by blast
    have v: "(if k = 0 then ?e else (replace_step env rules ^^ k) ?e) = (replace_step env rules ^^ Suc k) expr"
      by (simp add: funpow_swap1)
    have c': "\<forall>j. j + 1 < Suc k \<longrightarrow> changed env rules ((replace_step env rules ^^ j) expr)"
    proof (intro allI impI)
      fix j assume j: "j + 1 < Suc k"
      show "changed env rules ((replace_step env rules ^^ j) expr)"
      proof (cases j)
        case 0
        then show ?thesis using True by simp
      next
        case (Suc j')
        with j have "j' + 1 < k" by simp
        with c have "changed env rules ((replace_step env rules ^^ j') ?e)" by blast
        then show ?thesis using Suc by (simp add: funpow_swap1)
      qed
    qed
    have l': "Suc k < Suc n \<longrightarrow> 0 < Suc k \<and> \<not> changed env rules ((replace_step env rules ^^ (Suc k - 1)) expr)"
    proof
      assume "Suc k < Suc n"
      then have "k < n" by simp
      with l have k0: "0 < k" and nc: "\<not> changed env rules ((replace_step env rules ^^ (k - 1)) ?e)" by blast+
      from k0 obtain k' where k': "k = Suc k'" by (cases k) auto
      from nc k' have "\<not> changed env rules ((replace_step env rules ^^ k) expr)"
        by (simp add: funpow_swap1)
      then show "0 < Suc k \<and> \<not> changed env rules ((replace_step env rules ^^ (Suc k - 1)) expr)" by simp
    qed
    have "Suc k \<le> Suc n" using k by simp
    moreover have "replace_repeated_loop env rules expr (int (Suc n)) (Some r0) i ev
        = Some (Return (Some (if Suc k = 0 then r0 else (replace_step env rules ^^ Suc k) expr)) ev)"
      using u True r v by simp
    ultimately show ?thesis using c' l' by blast
  qed
qed

lemma replace_repeated_loop_within_cap:
  assumes ns: "\<forall>i. \<not> stopped env i" and n: "0 < n"
  shows "\<exists>k. 1 \<le> k \<and> k \<le> n
          \<and> replace_repeated_loop env rules expr (int n) None i ev
              = Some (Return (Some ((replace_step env rules ^^ k) expr)) ev)
          \<and> (\<forall>j. j + 1 < k \<longrightarrow> changed env rules ((replace_step env rules ^^ j) expr))
          \<and> (k < n \<longrightarrow> \<not> changed env rules ((replace_step env rules ^^ (k - 1)) expr))"
proof -
  have same: "replace_repeated_loop env rules expr (int n) None i ev
            = replace_repeated_loop env rules expr (int n) (Some expr) i ev"
    using ns n by (simp add: loop_unfold)
  from loop_cap_bound [OF ns, of n rules expr expr i ev] obtain k where k: "k \<le> n"
    and r: "replace_repeated_loop env rules expr (int n) (Some expr) i ev
            = Some (Return (Some (if k = 0 then expr else (replace_step env rules ^^ k) expr)) ev)"
    and c: "\<forall>j. j + 1 < k \<longrightarrow> changed env rules ((replace_step env rules ^^ j) expr)"
    and l: "k < n \<longrightarrow> 0 < k \<and> \<not> changed env rules ((replace_step env rules ^^ (k - 1)) expr)"
    by blast
  have k1: "1 \<le> k"
  proof (cases "k < n")
    case True with l show ?thesis by simp
  next
    case False with k n show ?thesis by simp
  qed
  then have "(if k = 0 then expr else (replace_step env rules ^^ k) expr) = (replace_step env rules ^^ k) expr"
    by simp
  with same r k k1 c l show ?thesis by auto
qed

lemma replace_repeated_loop_fixed_point:
  assumes run: "replace_repeated_loop env rules expr maxit result i ev = Some out"
  shows "maxit < 0 \<longrightarrow> (\<forall>r ev'. out = Return (Some r) ev' \<longrightarrow>
           (\<exists>k\<ge>1. r = (replace_step env rules ^^ k) expr
                  \<and> \<not> changed env rules ((replace_step env rules ^^ (k - 1)) expr)))"
proof -
  let ?Q = "\<lambda>env rules expr (maxit::int) (result::expr option) (i::nat) (ev::evaluation) out.
      maxit < 0 \<longrightarrow> (\<forall>r ev'. out = Return (Some r) ev' \<longrightarrow>
           (\<exists>k\<ge>1. r = (replace_step env rules ^^ k) expr
                  \<and> \<not> changed env rules ((replace_step env rules ^^ (k - 1)) expr)))"
  have "?Q env rules expr maxit result i ev out"
  proof (rule replace_repeated_loop.raw_induct [where P = ?Q, OF _ run], goal_cases)
    case (1 f env rules expr maxit result i ev out)
    show ?case
    proof (intro impI allI)
      fix r ev'
      assume neg: "maxit < 0" and out: "out = Return (Some r) ev'"
      let ?e = "replace_step env rules expr"
      from "1"(2) neg out have ns: "\<not> stopped env i" by (auto split: if_splits)
      from "1"(2) neg ns have body:
        "(if changed env rules expr then f env rules ?e (maxit - 1) (Some ?e) (Suc i) ev
          else Some (Return (Some ?e) ev)) = Some out"
        by (auto simp: Let_def changed_def replace_step_def split: if_splits)
      show "\<exists>k\<ge>1. r = (replace_step env rules ^^ k) expr
                    \<and> \<not> changed env rules ((replace_step env rules ^^ (k - 1)) expr)"
      proof (cases "changed env rules expr")
        case False
        with body out have "r = ?e" by simp
        with False show ?thesis by (intro exI [of _ 1]) simp
      next
        case True
        with body have rec: "f env rules ?e (maxit - 1) (Some ?e) (Suc i) ev = Some out" by simp
        have "?Q env rules ?e (maxit - 1) (Some ?e) (Suc i) ev out"
          using rec by (rule "1"(1))
        with neg out obtain k where k: "1 \<le> k" "r = (replace_step env rules ^^ k) ?e"
          "\<not> changed env rules ((replace_step env rules ^^ (k - 1)) ?e)" by auto
        from k(1) obtain k' where k': "k = Suc k'" by (cases k) auto
        have "r = (replace_step env rules ^^ Suc k) expr" using k(2) by (simp add: funpow_swap1)
        moreover have "\<not> changed env rules ((replace_step env rules ^^ (Suc k - 1)) expr)"
          using k(3) k' by (simp add: funpow_swap1)
        ultimately show ?thesis by (intro exI [of _ "Suc k"]) simp
      qed
    qed
  qed
  then show ?thesis .
qed

text \<open>An evaluator whose rules match literally: a rule applies to the expression equal to its left-hand side.\<close>

definition literal_env :: env where
  "literal_env = idle_env\<lparr>substitutions :=
     (\<lambda>rule e. case rule of Rule lhs rhs \<Rightarrow> if lhs = e then [rhs] else [])\<rparr>"

text \<open>
  C4. \<^verbatim>\<open>ReplaceList.eval\<close> hands \<^verbatim>\<open>max_list\<close> to every rule on its own and concatenates:
  with two matching rules and the bound 1 it returns two results.
\<close>

theorem ReplaceList_bound_per_rule:
  "ReplaceList_eval literal_env (Symbol ''Global`a'')
     (ListExpression [rule_expr (Symbol ''Global`a'') (Symbol ''Global`b''),
                      rule_expr (Symbol ''Global`a'') (Symbol ''Global`c'')])
     (Integer 1) []
   = Return (Some (ListExpression [Symbol ''Global`b'', Symbol ''Global`c''])) []"
  by (simp add: ReplaceList_eval_def create_rules_def rule_expr_def has_form_def rule_items_def
      SymbolRule_def SymbolList_def SymbolDispatch_def SymbolRuleDelayed_def SymbolInfinity_def
      ListExpression_def new_Rule_def idle_env_def literal_env_def Rule_apply_list_def)

text \<open>One rule alone keeps the bound, and its results for \<open>n\<close> are a prefix of those for \<open>n + 1\<close>.\<close>

lemma Rule_apply_list_prefix:
  "0 \<le> n \<Longrightarrow> length (Rule_apply_list env rule expr (Some n)) \<le> nat n
     \<and> Rule_apply_list env rule expr (Some n) = take (nat n) (Rule_apply_list env rule expr (Some (n + 1)))"
  by (simp add: Rule_apply_list_def min_def)


text \<open>A \<^verbatim>\<open>Rule\<close> with three elements is reported as \<^verbatim>\<open>argrx\<close>, under the rule's own head.\<close>

lemma create_rules_wrong_arity:
  "create_rules idle_env (Expression SymbolRule [Integer 1, Integer 2, Integer 3]) (Symbol ''Global`a'')
     ''ReplaceAll'' [] []
   = Return (Pair NoneValue True)
       [Message ''System`Rule'' ''argrx'' [ArgStr ''System`Rule'', ArgInt 3, ArgInt 2]]"
  by (simp add: create_rules_def has_form_def rule_items_def get_head_name_def
      SymbolRule_def SymbolList_def SymbolDispatch_def SymbolRuleDelayed_def)





definition any_lists :: "expr \<Rightarrow> bool" where
  "any_lists rules_expr =
     list_ex (\<lambda>item. get_head item \<in> {SymbolList, SymbolDispatch}) (rule_items rules_expr)"

definition all_lists :: "expr \<Rightarrow> bool" where
  "all_lists rules_expr = list_all (\<lambda>item. get_head item = SymbolList) (rule_items rules_expr)"






















section \<open>The matcher raises what its continuation raises\<close>

text \<open>
  Two runs of the matcher whose continuations behave alike, except that the first raises
  \<^verbatim>\<open>_StopGeneratorExcept\<close> where the second raises \<^verbatim>\<open>StopGenerator\<close>, end alike with the same
  difference; in particular the matcher itself never raises \<^verbatim>\<open>StopGenerator\<close>.
\<close>

fun stop_related :: "unit outcome \<Rightarrow> unit outcome \<Rightarrow> bool" where
  "stop_related (Return u ev) out = (out = Return u ev)"
| "stop_related (Raise e ev) out =
     (e \<noteq> StopGenerator \<and> out = Raise (if e = StopGeneratorExcept then StopGenerator else e) ev)"

definition related_yield :: "yield_func \<Rightarrow> yield_func \<Rightarrow> bool" where
  "related_yield k1 k2 = (\<forall>vars ev. stop_related (k1 vars ev) (k2 vars ev))"

lemma stop_related_Return [simp]: "stop_related (Return u ev) (Return u ev)"
  by simp

lemma related_yieldD: "related_yield k1 k2 \<Longrightarrow> stop_related (k1 vars ev) (k2 vars ev)"
  by (simp add: related_yield_def)

lemma for_loop_related:
  "(\<And>x s. x \<in> set xs \<Longrightarrow> stop_related (f x s) (g x s))
   \<Longrightarrow> stop_related (for_loop xs f ev) (for_loop xs g ev)"
proof (induction xs arbitrary: ev)
  case Nil
  show ?case by simp
next
  case (Cons x xs)
  have h: "stop_related (f x ev) (g x ev)" using Cons.prems by simp
  have r: "\<And>s. stop_related (for_loop xs f s) (for_loop xs g s)"
    using Cons.IH Cons.prems by simp
  show ?case
  proof (cases "f x ev")
    case (Return u s)
    with h have "g x ev = Return u s" by simp
    with Return r show ?thesis by simp
  next
    case (Raise e s)
    with h show ?thesis by simp
  qed
qed

lemma iter_fn_related:
  "(\<And>e pc k1 k2 s. e \<in> set es \<Longrightarrow> related_yield k1 k2 \<Longrightarrow> stop_related (m e pc k1 s) (m e pc k2 s))
   \<Longrightarrow> related_yield k1 k2
   \<Longrightarrow> stop_related (iter_fn m es vars k1 ev) (iter_fn m es vars k2 ev)"
proof (induction es arbitrary: vars ev)
  case Nil
  then show ?case by (simp add: related_yieldD)
next
  case (Cons e es)
  have "related_yield (\<lambda>v s. iter_fn m es v k1 s) (\<lambda>v s. iter_fn m es v k2 s)"
    unfolding related_yield_def using Cons.IH Cons.prems by simp
  then show ?case using Cons.prems(1) by simp
qed

lemma get_match_count_error:
  "get_match_count p = Inl e \<Longrightarrow> e = TypeError"
  "Alternatives_get_match_count r ps = Inl e \<Longrightarrow> e = TypeError"
  by (induction p and r ps rule: get_match_count_Alternatives_get_match_count.induct)
     (auto simp: tuple_setitem_def py_gt_def split: sum.splits option.splits if_splits prod.splits)

lemma match_elements_related:
  "(\<And>p e pc k1 k2 s. p \<in> set ps \<Longrightarrow> related_yield k1 k2 \<Longrightarrow> stop_related (m p e pc k1 s) (m p e pc k2 s))
   \<Longrightarrow> related_yield k1 k2
   \<Longrightarrow> stop_related (match_elements m ps es pc k1 ev) (match_elements m ps es pc k2 ev)"
proof (induction ps arbitrary: es pc ev)
  case Nil
  then show ?case by (simp add: related_yieldD)
next
  case (Cons p ps)
  have rec: "related_yield (\<lambda>v s. match_elements m ps es' (pc'\<lparr>vars_dict := v\<rparr>) k1 s)
               (\<lambda>v s. match_elements m ps es' (pc'\<lparr>vars_dict := v\<rparr>) k2 s)" for es' pc'
    unfolding related_yield_def using Cons.IH Cons.prems by simp
  show ?case
  proof (cases "get_match_count p")
    case (Inl e)
    then show ?thesis using get_match_count_error(1) [OF Inl] by simp
  next
    case (Inr c)
    obtain mn mx where c: "c = (mn, mx)" by (cases c)
    show ?thesis
      using Inr c Cons.prems(1) rec by (simp add: for_loop_related)
  qed
qed

lemma match_expression_related:
  "(\<And>p e pc k1 k2 s. p = hp \<or> p \<in> set eps \<Longrightarrow> related_yield k1 k2
        \<Longrightarrow> stop_related (m p e pc k1 s) (m p e pc k2 s))
   \<Longrightarrow> related_yield k1 k2
   \<Longrightarrow> stop_related (match_expression m hp eps x pc k1 ev) (match_expression m hp eps x pc k2 ev)"
proof -
  assume m: "\<And>p e pc k1 k2 s. p = hp \<or> p \<in> set eps \<Longrightarrow> related_yield k1 k2
        \<Longrightarrow> stop_related (m p e pc k1 s) (m p e pc k2 s)"
    and k: "related_yield k1 k2"
  have "related_yield (\<lambda>v s. match_elements m eps es (pc' v) k1 s)
          (\<lambda>v s. match_elements m eps es (pc' v) k2 s)" for es pc'
    unfolding related_yield_def using m k by (simp add: match_elements_related)
  then show ?thesis unfolding match_expression_def using m by simp
qed


lemma related_yield_guard:
  "related_yield k1 k2
   \<Longrightarrow> related_yield (\<lambda>v s. if c v then k1 v s else Return () s) (\<lambda>v s. if c v then k2 v s else Return () s)"
  by (simp add: related_yield_def)

lemma related_yield_except:
  "related_yield (\<lambda>vars ev. Raise StopGeneratorExcept ev) stop_at_first"
  by (simp add: related_yield_def stop_at_first_def)

lemma match_related:
  "related_yield k1 k2 \<Longrightarrow> stop_related (match env p x pc k1 ev) (match env p x pc k2 ev)"
proof (induction env p x pc k1 ev arbitrary: k2 rule: match.induct)
  case (1 env h expression pc yield_func ev)
  then show ?case by (simp add: related_yieldD split: option.splits)
next
  case (2 env h expression pc yield_func ev)
  then show ?case by (simp add: related_yieldD Let_def split: option.splits)
next
  case (3 env h expression pc yield_func ev)
  then show ?case by (simp add: related_yieldD Let_def split: option.splits)
next
  case (4 env varname p expression pc yield_func ev)
  then show ?case by (simp add: related_yieldD split: option.splits)
next
  case (5 env p dflt expression pc yield_func ev)
  then show ?case by (simp split: option.splits)
next
  case (6 env alternatives expression pc yield_func ev)
  then show ?case by (simp add: for_loop_related)
next
  case (7 env c p expression pc yield_func ev)
  let ?r = "match env c expression pc (\<lambda>vars_dict ev'. Raise StopGeneratorExcept ev') ev"
  have inner: "stop_related ?r (match env c expression pc stop_at_first ev)"
    using related_yield_except by (rule "7.IH"(1))
  show ?case
  proof (cases ?r)
    case (Return u ev')
    have "stop_related (match env p expression pc yield_func ev') (match env p expression pc k2 ev')"
      using Return "7.prems" by (rule "7.IH"(2))
    with Return show ?thesis by simp
  next
    case (Raise e ev')
    with inner have "e \<noteq> StopGenerator" by simp
    with Raise show ?thesis by simp
  qed
next
  case (8 env content expression pc yield_func ev)
  then show ?case by (simp add: related_yieldD)
next
  case (9 env p expression pc yield_func ev)
  then show ?case by simp
next
  case (10 env p test expression pc yield_func ev)
  show ?case
  proof (cases "match_functions (get_name test)")
    case None
    show ?thesis
      using None "10.IH"(1) [OF None related_yield_guard [OF "10.prems"]] by simp
  next
    case (Some item_ok)
    show ?thesis
      using Some "10.IH"(2) [OF Some related_yield_guard [OF "10.prems"]] by simp
  qed
next
  case (11 env p test expression pc yield_func ev)
  show ?case
    using "11.IH" [OF related_yield_guard [OF "11.prems"]] by simp
next
  case (12 env p mn mx expression pc yield_func ev)
  show ?case
  proof (cases "int (length (get_sequence expression)) < mn
      \<or> (case mx of None \<Rightarrow> False | Some m \<Rightarrow> int (length (get_sequence expression)) > m)")
    case True
    then show ?thesis by (auto simp: Let_def)
  next
    case False
    have "stop_related
        (iter_fn (\<lambda>e c k s. match env p e c k s) (get_sequence expression) (vars_dict pc) yield_func ev)
        (iter_fn (\<lambda>e c k s. match env p e c k s) (get_sequence expression) (vars_dict pc) k2 ev)"
    proof (rule iter_fn_related)
      fix e c ka kb s
      assume "e \<in> set (get_sequence expression)" and "related_yield ka kb"
      then show "stop_related (match env p e c ka s) (match env p e c kb s)"
        using False by (intro "12.IH") auto
    qed (rule "12.prems")
    with False show ?thesis by (auto simp: Let_def)
  qed
next
  case (13 env defaults expression pc yield_func ev)
  then show ?case by (simp add: related_yieldD Let_def split: option.splits)
next
  case (14 env a expression pc yield_func ev)
  then show ?case by (simp add: related_yieldD)
next
  case (15 env hp eps expression pc yield_func ev)
  have "stop_related
      (match_expression (\<lambda>q e c k s. match env q e c k s) hp eps expression pc yield_func ev)
      (match_expression (\<lambda>q e c k s. match env q e c k s) hp eps expression pc k2 ev)"
  proof (rule match_expression_related)
    fix q e c ka kb s
    assume "q = hp \<or> q \<in> set eps" and "related_yield ka kb"
    then show "stop_related (match env q e c ka s) (match env q e c kb s)"
      by (intro "15.IH")
  qed (rule "15.prems")
  then show ?case by simp
qed

section \<open>Except\<close>

text \<open>
  A caller that stops at the first match: the match succeeds when the stop signal comes
  back, and fails when the matcher returns without having called the continuation.
\<close>

definition succeeds :: "env \<Rightarrow> pat \<Rightarrow> expr \<Rightarrow> pattern_context \<Rightarrow> evaluation \<Rightarrow> bool" where
  "succeeds env p x pc ev =
     (case match env p x pc stop_at_first ev of
        Raise e ev' \<Rightarrow> e = StopGenerator
      | Return u ev' \<Rightarrow> False)"

definition fails :: "env \<Rightarrow> pat \<Rightarrow> expr \<Rightarrow> pattern_context \<Rightarrow> evaluation \<Rightarrow> bool" where
  "fails env p x pc ev =
     (case match env p x pc stop_at_first ev of
        Raise e ev' \<Rightarrow> False
      | Return u ev' \<Rightarrow> True)"

text \<open>
  C3 as stated fails on the empty sequence: \<^verbatim>\<open>Verbatim[1]\<close> does not match \<^verbatim>\<open>Sequence[]\<close>,
  and \<^verbatim>\<open>Except[Verbatim[1]]\<close> does not match it either, because its fallback \<^verbatim>\<open>Blank[]\<close>
  refuses the empty sequence.
\<close>

theorem Except_empty_sequence:
  "fails idle_env (Verbatim (Integer 1)) (Expression SymbolSequence []) (new_context Map.empty) []
   \<and> \<not> succeeds idle_env (Except (Verbatim (Integer 1)) (Blank None)) (Expression SymbolSequence [])
         (new_context Map.empty) []"
  by (simp add: fails_def succeeds_def sameQ_def has_form_def SymbolSequence_def)

text \<open>
  C3, amended. For every pattern \<open>c\<close> and every candidate \<open>x\<close>, \<^verbatim>\<open>Except[c]\<close> (compiled by
  \<^verbatim>\<open>Except.init\<close> with the fallback \<^verbatim>\<open>Blank[]\<close>, whose head is \<^verbatim>\<open>None\<close>) succeeds on \<open>x\<close>
  exactly when \<open>c\<close> fails on \<open>x\<close> and \<open>x\<close> is not the empty sequence; it fails on \<open>x\<close> exactly
  when \<open>c\<close> succeeds on \<open>x\<close>, or \<open>c\<close> fails on \<open>x\<close> and \<open>x\<close> is the empty sequence.
\<close>

theorem Except_succeeds_iff_excluded_fails:
  "succeeds env (Except c (Blank None)) x pc ev
     = (fails env c x pc ev \<and> \<not> has_form x [''System`Sequence''] (Some [0]))
   \<and> fails env (Except c (Blank None)) x pc ev
     = (succeeds env c x pc ev \<or> fails env c x pc ev \<and> has_form x [''System`Sequence''] (Some [0]))"
proof -
  let ?r = "match env c x pc (\<lambda>vars_dict ev'. Raise StopGeneratorExcept ev') ev"
  have rel: "stop_related ?r (match env c x pc stop_at_first ev)"
    using related_yield_except by (rule match_related)
  have blank: "match env (Blank None) x pc stop_at_first s
      = (if has_form x [''System`Sequence''] (Some [0]) then Return () s else Raise StopGenerator s)" for s
    by (simp add: stop_at_first_def)
  show ?thesis
  proof (cases ?r)
    case (Return u ev')
    with rel have "match env c x pc stop_at_first ev = Return u ev'" by simp
    with Return blank show ?thesis by (simp add: succeeds_def fails_def)
  next
    case (Raise e ev')
    with rel have e: "e \<noteq> StopGenerator"
      and r2: "match env c x pc stop_at_first ev
               = Raise (if e = StopGeneratorExcept then StopGenerator else e) ev'"
      by simp_all
    show ?thesis
      using Raise e r2 by (simp add: succeeds_def fails_def)
  qed
qed

theorem Except_succeeds_iff_excluded_fails_witness:
  "succeeds idle_env (Except (Verbatim (Integer 1)) (Blank None)) (Integer 2) (new_context Map.empty) []
   \<and> fails idle_env (Except (Verbatim (Integer 2)) (Blank None)) (Integer 2) (new_context Map.empty) []
   \<and> fails idle_env (Except (Verbatim (Integer 1)) (Blank None)) (Expression SymbolSequence [])
        (new_context Map.empty) []"
proof -
  have h: "\<not> has_form (Integer 2) [''System`Sequence''] (Some [0])" by (simp add: has_form_def)
  have q: "has_form (Expression SymbolSequence []) [''System`Sequence''] (Some [0])"
    by (simp add: has_form_def SymbolSequence_def)
  have f: "fails idle_env (Verbatim (Integer 1)) (Integer 2) (new_context Map.empty) []"
    by (simp add: fails_def sameQ_def)
  have s: "succeeds idle_env (Verbatim (Integer 2)) (Integer 2) (new_context Map.empty) []"
    by (simp add: succeeds_def sameQ_def stop_at_first_def)
  have g: "fails idle_env (Verbatim (Integer 1)) (Expression SymbolSequence []) (new_context Map.empty) []"
    by (simp add: fails_def sameQ_def SymbolSequence_def)
  show ?thesis
    using Except_succeeds_iff_excluded_fails [of idle_env "Verbatim (Integer 1)" "Integer 2" "new_context Map.empty" "[]"]
      Except_succeeds_iff_excluded_fails [of idle_env "Verbatim (Integer 2)" "Integer 2" "new_context Map.empty" "[]"]
      Except_succeeds_iff_excluded_fails [of idle_env "Verbatim (Integer 1)" "Expression SymbolSequence []" "new_context Map.empty" "[]"]
      h q f s g
    by blast
qed

section \<open>Binding a name once\<close>






















end
